theory Spec2Isabelle
  imports Main "HOL-Library.AList" "HOL-Library.Char_ord" "HOL-Library.List_Lexorder"
begin

section \<open>Python values, exceptions and the outside world\<close>

text \<open>
  The manager of \<open>core/manager.py\<close> talks to Docker (through docker-py), to the file
  system and to two command line tools (\<open>skopeo\<close>, \<open>curl\<close>). None of these is part of the
  repository, so the model makes no assumption about them: every external call is
  answered by the \<open>world\<close>, a record of functions from the history of calls made so far
  and the call itself to an outcome. The manager is then a state-passing program over
  the call history, the process log and the operation journal, and every theorem below
  holds for all worlds.
\<close>

datatype exn_class =
    CalledProcessError | JSONDecodeError | AttributeError | TypeError | ValueError
  | KeyError | UnboundLocalError | OtherException

text \<open>An instance of (a subclass of) Python's \<open>Exception\<close>, with the text \<open>str(e)\<close>.\<close>

datatype exn = Exn exn_class string

fun str_exn :: "exn \<Rightarrow> string" where
  "str_exn (Exn c m) = m"

text \<open>An \<open>Optional[str]\<close>: \<open>None\<close> is Python's \<open>None\<close>.\<close>

type_synonym pystr = "string option"

text \<open>Python's truth value of an \<open>Optional[str]\<close>: \<open>None\<close> and \<open>''\<close> are false.\<close>

fun truthy :: "pystr \<Rightarrow> bool" where
  "truthy None = False"
| "truthy (Some s) = (s \<noteq> [])"

text \<open>What an f-string prints for an \<open>Optional[str]\<close>.\<close>

fun fmt :: "pystr \<Rightarrow> string" where
  "fmt None = ''None''"
| "fmt (Some s) = s"

text \<open>
  A \<open>dict\<close> with string keys is an association list in insertion order;
  \<open>d.get(k, default)\<close> returns the default only when the key is absent.
\<close>

type_synonym 'v dict = "(string \<times> 'v) list"

definition dict_get :: "'v dict \<Rightarrow> string \<Rightarrow> 'v \<Rightarrow> 'v" where
  "dict_get d k dflt = (case map_of d k of None \<Rightarrow> dflt | Some v \<Rightarrow> v)"

text \<open>A value decoded by \<open>json.loads\<close>; \<open>JNull\<close> is Python's \<open>None\<close>, \<open>JObj\<close> holds the
  items of the decoded \<open>dict\<close>.\<close>

datatype json =
    JNull | JBool bool | JNum int | JStr string | JArr "json list" | JObj "(string \<times> json) list"

text \<open>\<open>response.get(key)\<close>: only a \<open>dict\<close> has \<open>get\<close>; a missing key gives \<open>None\<close>.\<close>

fun json_get :: "json \<Rightarrow> string \<Rightarrow> exn + json" where
  "json_get (JObj kvs) k = Inr (case map_of kvs k of None \<Rightarrow> JNull | Some v \<Rightarrow> v)"
| "json_get _ k = Inl (Exn AttributeError ''object has no attribute get'')"

text \<open>
  The decoded answer of the registry, as far as \<open>get_available_tags\<close> tells answers
  apart: a value without \<open>get\<close> (anything but an object), or an object whose \<open>Tags\<close> entry
  is absent, a list of strings, or a value on which \<open>sorted\<close> raises \<open>TypeError\<close> (null, a
  number, a list mixing strings and numbers). Entries that \<open>sorted\<close> accepts without
  being lists of strings (a string, an object, a list of numbers) are not represented.
\<close>

datatype tags_entry = TagsAbsent | TagsList "string list" | TagsUnsortable

datatype registry_json = RObject tags_entry | RNotObject

text \<open>A container handle of docker-py: its name and, from \<open>attrs\<close>, the address it has on
  each network it is attached to.\<close>

record container =
  ctr_name :: string
  ctr_networks :: "string dict"

text \<open>The keyword arguments of \<open>containers.run\<close>.\<close>

record run_args =
  run_image :: string
  run_name :: string
  run_detach :: bool
  run_restart_policy :: "string dict"
  run_ports :: "(string \<times> int) list"
  run_volumes :: "(string \<times> string dict) list"
  run_command :: pystr
  run_environment :: "pystr dict"
  run_labels :: "string dict"

datatype call =
    IsDockerInstalled | HasSudoPrivileges | InstallDocker | IsDockerRunning | StartDocker
  | NetworksList "string list"
  | NetworksCreate string string string string
  | PathExists string
  | Makedirs string
  | ContainersList bool string
  | ContainersRun run_args
  | ContainersGet string
  | NetworksGet string
  | NetworkConnect string string pystr
  | ContainerStop string
  | ContainerRemove string bool
  | SubprocessRun "string list"

text \<open>A call that was made, and whether it returned (\<open>True\<close>) or raised.\<close>

datatype event = Event call bool

record world =
  flag_of :: "event list \<Rightarrow> call \<Rightarrow> bool"
  unit_of :: "event list \<Rightarrow> call \<Rightarrow> exn + unit"
  networks_of :: "event list \<Rightarrow> call \<Rightarrow> exn + string list"
  network_of :: "event list \<Rightarrow> call \<Rightarrow> exn + string"
  containers_of :: "event list \<Rightarrow> call \<Rightarrow> exn + container list"
  container_of :: "event list \<Rightarrow> call \<Rightarrow> exn + container"
  stdout_of :: "event list \<Rightarrow> call \<Rightarrow> exn + string"
  expanduser :: "string \<Rightarrow> string"
  json_loads :: "string \<Rightarrow> string + json"
  registry_loads :: "string \<Rightarrow> string + registry_json"
  int_of_str :: "string \<Rightarrow> string + int"
  py_str :: "json \<Rightarrow> string"

section \<open>The operation journal (utils/logger.py)\<close>

text \<open>
  \<open>EALogger\<close> appends one line per call of \<open>log_initialize\<close>, \<open>log_deploy\<close>, \<open>log_upgrade\<close> or
  \<open>log_test\<close>. The journal keeps the calls with their arguments; \<open>operation\<close>, \<open>adapter\<close> and
  \<open>success\<close> are the first three arguments each of them passes to \<open>log_operation\<close>.
\<close>

datatype journal_call =
    LogInitialize bool pystr
  | LogDeploy string pystr bool pystr
  | LogUpgrade string pystr bool pystr
  | LogTest string string string bool json


fun adapter :: "journal_call \<Rightarrow> pystr" where
  "adapter (LogInitialize ok d) = None"
| "adapter (LogDeploy a t ok d) = Some a"
| "adapter (LogUpgrade a t ok d) = Some a"
| "adapter (LogTest c f t ok r) = Some c"

fun success :: "journal_call \<Rightarrow> bool" where
  "success (LogInitialize ok d) = ok"
| "success (LogDeploy a t ok d) = ok"
| "success (LogUpgrade a t ok d) = ok"
| "success (LogTest c f t ok r) = ok"

text \<open>\<open>status = "SUCCESS" if success else "FAILURE"\<close>\<close>

definition status :: "journal_call \<Rightarrow> string" where
  "status j = (if success j then ''SUCCESS'' else ''FAILURE'')"

section \<open>Programs: state passing with exceptions\<close>

datatype level = INFO | WARNING | ERROR

record state =
  trace :: "event list"
  logs :: "(level \<times> string) list"
  journal :: "journal_call list"

type_synonym 'a prog = "state \<Rightarrow> (exn + 'a) \<times> state"

definition returnE :: "'a \<Rightarrow> 'a prog" where
  "returnE x = (\<lambda>s. (Inr x, s))"

definition raiseE :: "exn \<Rightarrow> 'a prog" where
  "raiseE e = (\<lambda>s. (Inl e, s))"

definition bindE :: "'a prog \<Rightarrow> ('a \<Rightarrow> 'b prog) \<Rightarrow> 'b prog" where
  "bindE m f = (\<lambda>s. case m s of (Inl e, s') \<Rightarrow> (Inl e, s') | (Inr x, s') \<Rightarrow> f x s')"

definition thenE :: "'a prog \<Rightarrow> 'b prog \<Rightarrow> 'b prog" where
  "thenE m n = bindE m (\<lambda>x. n)"

text \<open>\<open>try: m except Exception as e: h e\<close>\<close>

definition catchE :: "'a prog \<Rightarrow> (exn \<Rightarrow> 'a prog) \<Rightarrow> 'a prog" where
  "catchE m h = (\<lambda>s. case m s of (Inl e, s') \<Rightarrow> h e s' | (Inr x, s') \<Rightarrow> (Inr x, s'))"

text \<open>A pure step that may raise.\<close>

definition liftE :: "exn + 'a \<Rightarrow> 'a prog" where
  "liftE r = (\<lambda>s. (r, s))"

text \<open>An external call: the world answers from the history, and the call is recorded.\<close>

definition perform :: "(event list \<Rightarrow> call \<Rightarrow> exn + 'a) \<Rightarrow> call \<Rightarrow> 'a prog" where
  "perform f c = (\<lambda>s. case f (trace s) c of
       Inl e \<Rightarrow> (Inl e, s\<lparr>trace := trace s @ [Event c False]\<rparr>)
     | Inr x \<Rightarrow> (Inr x, s\<lparr>trace := trace s @ [Event c True]\<rparr>))"

text \<open>An external call that answers yes or no and never raises.\<close>

definition query :: "world \<Rightarrow> call \<Rightarrow> bool prog" where
  "query w c = (\<lambda>s. (Inr (flag_of w (trace s) c), s\<lparr>trace := trace s @ [Event c True]\<rparr>))"

definition log :: "level \<Rightarrow> string \<Rightarrow> unit prog" where
  "log l m = (\<lambda>s. (Inr (), s\<lparr>logs := logs s @ [(l, m)]\<rparr>))"

definition op_log :: "journal_call \<Rightarrow> unit prog" where
  "op_log j = (\<lambda>s. (Inr (), s\<lparr>journal := journal s @ [j]\<rparr>))"

definition init_state :: state where
  "init_state = \<lparr>trace = [], logs = [], journal = []\<rparr>"

section \<open>The configuration manager (config/config_manager.py)\<close>

text \<open>
  \<open>ConfigManager\<close> after \<open>__init__\<close>: the credential store read from the \<open>api_keys\<close> file and
  the per-adapter dictionaries built by \<open>_create_adapter_configs\<close>.
\<close>

record config_manager =
  api_keys :: "string dict"
  adapter_configs :: "pystr dict dict"

text \<open>
  The dictionary \<open>_create_adapter_configs\<close> stores for one adapter script. Its arguments
  are the results of the four regular expression searches, \<open>None\<close> where a search found
  nothing: all four keys are always present.
\<close>

definition adapter_entry :: "pystr \<Rightarrow> pystr \<Rightarrow> pystr \<Rightarrow> pystr \<Rightarrow> pystr dict" where
  "adapter_entry ip port api_key_var sub_tier_var =
     [(''ip'', ip), (''port'', port), (''api_key_var'', api_key_var),
      (''sub_tier_var'', sub_tier_var)]"

definition get_adapter_config :: "config_manager \<Rightarrow> string \<Rightarrow> pystr dict option" where
  "get_adapter_config self adapter_name = map_of (adapter_configs self) adapter_name"

text \<open>\<open>not adapter_config\<close>: the configuration is \<open>None\<close> or an empty dictionary.\<close>

fun no_config :: "pystr dict option \<Rightarrow> bool" where
  "no_config None = True"
| "no_config (Some d) = (d = [])"

definition get_api_key :: "config_manager \<Rightarrow> string \<Rightarrow> pystr" where
  "get_api_key self adapter_name =
     (case get_adapter_config self adapter_name of
        None \<Rightarrow> None
      | Some adapter_config \<Rightarrow>
          if adapter_config = [] then None
          else (case dict_get adapter_config ''api_key_var'' None of
                  None \<Rightarrow> None
                | Some api_key_var \<Rightarrow>
                    if api_key_var = [] then None else map_of (api_keys self) api_key_var))"

definition get_subscription_tier :: "config_manager \<Rightarrow> string \<Rightarrow> pystr" where
  "get_subscription_tier self adapter_name =
     (case get_adapter_config self adapter_name of
        None \<Rightarrow> None
      | Some adapter_config \<Rightarrow>
          if adapter_config = [] then None
          else (case dict_get adapter_config ''sub_tier_var'' None of
                  None \<Rightarrow> None
                | Some sub_tier_var \<Rightarrow>
                    if sub_tier_var = [] then None else map_of (api_keys self) sub_tier_var))"

section \<open>The manager (core/manager.py)\<close>

subsection \<open>External calls\<close>

definition networks_list :: "world \<Rightarrow> string list \<Rightarrow> string list prog" where
  "networks_list w names = perform (networks_of w) (NetworksList names)"

definition networks_create :: "world \<Rightarrow> string \<Rightarrow> string \<Rightarrow> string \<Rightarrow> string \<Rightarrow> unit prog" where
  "networks_create w nm driver subnet gateway =
     perform (unit_of w) (NetworksCreate nm driver subnet gateway)"

definition networks_get :: "world \<Rightarrow> string \<Rightarrow> string prog" where
  "networks_get w nm = perform (network_of w) (NetworksGet nm)"

definition network_connect :: "world \<Rightarrow> string \<Rightarrow> container \<Rightarrow> pystr \<Rightarrow> unit prog" where
  "network_connect w network c ipv4_address =
     perform (unit_of w) (NetworkConnect network (ctr_name c) ipv4_address)"

definition containers_list :: "world \<Rightarrow> string \<Rightarrow> container list prog" where
  "containers_list w nm = perform (containers_of w) (ContainersList True nm)"

definition containers_run :: "world \<Rightarrow> run_args \<Rightarrow> unit prog" where
  "containers_run w args = perform (unit_of w) (ContainersRun args)"

definition containers_get :: "world \<Rightarrow> string \<Rightarrow> container prog" where
  "containers_get w nm = perform (container_of w) (ContainersGet nm)"

definition container_stop :: "world \<Rightarrow> container \<Rightarrow> unit prog" where
  "container_stop w c = perform (unit_of w) (ContainerStop (ctr_name c))"

definition container_remove :: "world \<Rightarrow> container \<Rightarrow> bool \<Rightarrow> unit prog" where
  "container_remove w c force = perform (unit_of w) (ContainerRemove (ctr_name c) force)"

definition makedirs :: "world \<Rightarrow> string \<Rightarrow> unit prog" where
  "makedirs w path = perform (unit_of w) (Makedirs path)"

text \<open>\<open>subprocess.run(cmd, capture_output=True, text=True, check=True).stdout\<close>\<close>

definition subprocess_run :: "world \<Rightarrow> string list \<Rightarrow> string prog" where
  "subprocess_run w cmd = perform (stdout_of w) (SubprocessRun cmd)"

text \<open>\<open>json.loads\<close>: the world decodes the text or gives the message of the
  \<open>JSONDecodeError\<close> raised; \<open>registry_loads\<close> is the same function seen through the type of
  registry answers.\<close>

definition loads :: "world \<Rightarrow> string \<Rightarrow> json prog" where
  "loads w text = (case json_loads w text of
       Inl m \<Rightarrow> raiseE (Exn JSONDecodeError m)
     | Inr v \<Rightarrow> returnE v)"

definition loads_registry :: "world \<Rightarrow> string \<Rightarrow> registry_json prog" where
  "loads_registry w text = (case registry_loads w text of
       Inl m \<Rightarrow> raiseE (Exn JSONDecodeError m)
     | Inr v \<Rightarrow> returnE v)"

subsection \<open>get_available_tags\<close>

text \<open>\<open>tags_data.get('Tags', [])\<close> followed by \<open>sorted(..., reverse=True)\<close>. Python orders
  strings by code point, which is the order of their UTF-8 bytes.\<close>

fun sorted_tags :: "registry_json \<Rightarrow> exn + string list" where
  "sorted_tags RNotObject = Inl (Exn AttributeError ''object has no attribute get'')"
| "sorted_tags (RObject TagsAbsent) = Inr []"
| "sorted_tags (RObject (TagsList ts)) = Inr (rev (sort ts))"
| "sorted_tags (RObject TagsUnsortable) = Inl (Exn TypeError ''not supported'')"

definition skopeo_cmd :: "string \<Rightarrow> string list" where
  "skopeo_cmd adapter_name =
     (let repo = ''public.ecr.aws/chainlink/adapters/'' @ adapter_name @ ''-adapter'' in
      [''skopeo'', ''list-tags'', ''docker://'' @ repo])"

definition get_available_tags :: "world \<Rightarrow> string \<Rightarrow> string list prog" where
  "get_available_tags w adapter_name =
     (catchE
        (bindE (subprocess_run w (skopeo_cmd adapter_name)) (\<lambda>out.
         bindE (loads_registry w out) (\<lambda>tags_data.
         bindE (liftE (sorted_tags tags_data)) (\<lambda>tags.
         returnE (take 10 tags)))))
        (\<lambda>e. case e of
           Exn CalledProcessError m \<Rightarrow>
             thenE (log ERROR (''Failed to get tags for '' @ adapter_name @ '': '' @ m))
                   (returnE [])
         | Exn JSONDecodeError m \<Rightarrow>
             thenE (log ERROR (''Failed to parse tags for '' @ adapter_name @ '': '' @ m))
                   (returnE [])
         | _ \<Rightarrow> raiseE e))"

subsection \<open>ensure_docker_running (utils/docker_utils.py)\<close>

text \<open>The second half of \<open>ensure_docker_running\<close>: the daemon is started when it is down.\<close>

definition ensure_daemon :: "world \<Rightarrow> bool prog" where
  "ensure_daemon w =
     bindE (query w IsDockerRunning) (\<lambda>running.
       if \<not> running then
         thenE (log WARNING ''Docker is not running'')
        (bindE (query w StartDocker) (\<lambda>started.
           if \<not> started then thenE (log ERROR ''Failed to start Docker'') (returnE False)
           else thenE (log INFO ''Docker is installed and running'') (returnE True)))
       else thenE (log INFO ''Docker is installed and running'') (returnE True))"

definition ensure_docker_running :: "world \<Rightarrow> bool prog" where
  "ensure_docker_running w =
     thenE (log INFO ''Checking if Docker is installed and running...'')
    (bindE (query w IsDockerInstalled) (\<lambda>installed.
       if \<not> installed then
         thenE (log WARNING ''Docker is not installed'')
        (bindE (query w HasSudoPrivileges) (\<lambda>sudo.
           if \<not> sudo then
             thenE (log ERROR ''Cannot install Docker: insufficient privileges'')
            (thenE (log ERROR ''Please install Docker manually and run the command again'')
                   (returnE False))
           else
             bindE (query w InstallDocker) (\<lambda>done.
               if \<not> done then thenE (log ERROR ''Failed to install Docker'') (returnE False)
               else ensure_daemon w)))
       else ensure_daemon w))"

subsection \<open>Attaching a container to the shared network\<close>

text \<open>The outcome of a block, as a value: what \<open>try\<close> sees.\<close>

definition tryE :: "'a prog \<Rightarrow> (exn + 'a) prog" where
  "tryE m = (\<lambda>s. case m s of (r, s') \<Rightarrow> (Inr r, s'))"

text \<open>
  The \<open>except\<close> branch of the attachment, shared by \<open>initialize_environment\<close> and
  \<open>deploy_adapter\<close>: a warning, then \<open>network.connect(container)\<close> without an address.
  \<open>bound\<close> holds the local variables \<open>network\<close> and \<open>container\<close> when the failing statement
  was the \<open>connect\<close> itself; when \<open>containers.get\<close> or \<open>networks.get\<close> raised, \<open>network\<close> is
  unbound and evaluating \<open>network.connect\<close> raises \<open>UnboundLocalError\<close>.
\<close>

definition connect_fallback ::
  "world \<Rightarrow> (string \<times> container) option \<Rightarrow> string \<Rightarrow> string \<Rightarrow> exn \<Rightarrow> unit prog" where
  "connect_fallback w bound warn_msg err_msg e =
     thenE (log WARNING (warn_msg @ str_exn e))
       (catchE
          (case bound of
             None \<Rightarrow> raiseE (Exn UnboundLocalError ''local variable network referenced before assignment'')
           | Some (network, container) \<Rightarrow> network_connect w network container None)
          (\<lambda>inner_e. log ERROR (err_msg @ str_exn inner_e)))"

definition connect_to_network ::
  "world \<Rightarrow> string \<Rightarrow> pystr \<Rightarrow> string \<Rightarrow> string \<Rightarrow> unit prog" where
  "connect_to_network w container_name ip_address warn_msg err_msg =
     bindE (tryE (containers_get w container_name)) (\<lambda>rc. case rc of
        Inl e \<Rightarrow> connect_fallback w None warn_msg err_msg e
      | Inr container \<Rightarrow>
          bindE (tryE (networks_get w ''eas-net'')) (\<lambda>rn. case rn of
             Inl e \<Rightarrow> connect_fallback w None warn_msg err_msg e
           | Inr network \<Rightarrow>
               bindE (tryE (network_connect w network container ip_address)) (\<lambda>r. case r of
                  Inl e \<Rightarrow> connect_fallback w (Some (network, container)) warn_msg err_msg e
                | Inr u \<Rightarrow> returnE ())))"

subsection \<open>initialize_environment\<close>



subsection \<open>deploy_adapter\<close>

text \<open>
  The environment of the new container: the literal dictionary, then \<open>API_KEY\<close> and
  \<open>RATE_LIMIT_API_TIER\<close> under their \<open>if\<close>.
\<close>

definition base_env_vars :: "string \<Rightarrow> pystr dict \<Rightarrow> pystr dict" where
  "base_env_vars adapter_name adapter_config =
     [(''EA_PORT'', dict_get adapter_config ''port'' (Some ''1113'')),
      (''CACHE_ENABLED'', Some ''true''),
      (''CACHE_TYPE'', Some ''redis''),
      (''CACHE_KEY_GROUP'', Some adapter_name),
      (''CACHE_REDIS_HOST'', Some ''192.168.1.1''),
      (''CACHE_REDIS_PORT'', Some ''6379''),
      (''CACHE_REDIS_TIMEOUT'', Some ''10000''),
      (''RATE_LIMIT_ENABLED'', Some ''true''),
      (''WARMUP_ENABLED'', Some ''true''),
      (''RATE_LIMIT_API_PROVIDER'', Some adapter_name),
      (''REQUEST_COALESCING_ENABLED'', Some ''true''),
      (''REQUEST_COALESCING_INTERVAL'', Some ''100''),
      (''REQUEST_COALESCING_INTERVAL_MAX'', Some ''1000''),
      (''REQUEST_COALESCING_INTERVAL_COEFFICIENT'', Some ''2''),
      (''REQUEST_COALESCING_ENTROPY_MAX'', Some ''0''),
      (''LOG_LEVEL'', Some ''info''),
      (''DEBUG'', Some ''false''),
      (''API_VERBOSE'', Some ''false''),
      (''EXPERIMENTAL_METRICS_ENABLED'', Some ''true''),
      (''METRICS_NAME'', Some adapter_name),
      (''RETRY'', Some ''1''),
      (''TIMEOUT'', Some ''30000'')]"

definition env_vars :: "config_manager \<Rightarrow> string \<Rightarrow> pystr dict \<Rightarrow> pystr dict" where
  "env_vars self adapter_name adapter_config =
     (let env = base_env_vars adapter_name adapter_config;
          api_key = get_api_key self adapter_name;
          env = (if truthy api_key then AList.update ''API_KEY'' api_key env else env);
          sub_tier = get_subscription_tier self adapter_name;
          env = (if truthy sub_tier then AList.update ''RATE_LIMIT_API_TIER'' sub_tier env else env)
      in env)"

text \<open>
  \<open>int(port)\<close>: \<open>None\<close> raises \<open>TypeError\<close>; for a string the world gives the integer or
  the message of the \<open>ValueError\<close> raised.
\<close>

definition squote :: string where
  "squote = [CHR 0x27]"

definition py_int :: "world \<Rightarrow> pystr \<Rightarrow> exn + int" where
  "py_int w v = (case v of
       None \<Rightarrow> Inl (Exn TypeError
         (''int() argument must be a string, a bytes-like object or a real number, not ''
            @ squote @ ''NoneType'' @ squote))
     | Some s \<Rightarrow>
         (case int_of_str w s of
            Inl m \<Rightarrow> Inl (Exn ValueError m)
          | Inr n \<Rightarrow> Inr n))"

fun remove_all :: "world \<Rightarrow> container list \<Rightarrow> unit prog" where
  "remove_all w [] = returnE ()"
| "remove_all w (c # cs) = thenE (container_remove w c True) (remove_all w cs)"

definition adapter_run_args :: "string \<Rightarrow> string \<Rightarrow> pystr \<Rightarrow> int \<Rightarrow> pystr dict \<Rightarrow> run_args" where
  "adapter_run_args image_name container_name port port_number env =
     \<lparr>run_image = image_name, run_name = container_name, run_detach = True,
      run_restart_policy = [(''Name'', ''unless-stopped'')],
      run_ports = [(fmt port @ ''/tcp'', port_number)],
      run_volumes = [],
      run_command = None,
      run_environment = env,
      run_labels = [(''prometheus-scrape.enabled'', ''true''),
                    (''prometheus-scrape.job_name'', container_name),
                    (''prometheus-scrape.port'', ''9080''),
                    (''prometheus-scrape.metrics_path'', ''/metrics'')]\<rparr>"

text \<open>The body of the last \<open>try\<close> of \<open>deploy_adapter\<close>.\<close>

definition deploy_container ::
  "world \<Rightarrow> config_manager \<Rightarrow> string \<Rightarrow> string \<Rightarrow> pystr dict \<Rightarrow> bool prog" where
  "deploy_container w self adapter_name tag adapter_config =
     (let env = env_vars self adapter_name adapter_config;
          container_name = adapter_name @ ''-redis'';
          image_name = ''public.ecr.aws/chainlink/adapters/'' @ adapter_name @ ''-adapter:'' @ tag
      in
      bindE (containers_list w container_name) (\<lambda>existing_containers.
      thenE (if existing_containers \<noteq> [] then
               thenE (log WARNING (''Container '' @ container_name @ '' already exists. Removing...''))
                     (remove_all w existing_containers)
             else returnE ())
     (thenE (log INFO (''Deploying '' @ adapter_name @ '' adapter with tag '' @ tag))
     (let ip_address = dict_get adapter_config ''ip'' (Some ''192.168.1.113'');
          port = dict_get adapter_config ''port'' (Some ''1113'')
      in
      bindE (liftE (py_int w port)) (\<lambda>port_number.
      thenE (containers_run w (adapter_run_args image_name container_name port port_number env))
     (thenE (connect_to_network w container_name ip_address
               ''Failed to set static IP: '' ''Failed to connect to network: '')
     (thenE (log INFO (''Successfully deployed '' @ adapter_name @ '' adapter''))
     (thenE (op_log (LogDeploy adapter_name (Some tag) True None))
            (returnE True)))))))))"

text \<open>\<open>deploy_adapter\<close> from the point where \<open>tag\<close> is a non-empty string.\<close>

definition deploy_tagged :: "world \<Rightarrow> config_manager \<Rightarrow> string \<Rightarrow> string \<Rightarrow> bool prog" where
  "deploy_tagged w self adapter_name tag =
     (case get_adapter_config self adapter_name of
        None \<Rightarrow>
          thenE (log ERROR (''No configuration found for adapter '' @ adapter_name)) (returnE False)
      | Some adapter_config \<Rightarrow>
          if adapter_config = [] then
            thenE (log ERROR (''No configuration found for adapter '' @ adapter_name)) (returnE False)
          else
            bindE (tryE (networks_list w [''eas-net''])) (\<lambda>r. case r of
               Inl e \<Rightarrow>
                 thenE (log ERROR (''Failed to check Docker networks: '' @ str_exn e)) (returnE False)
             | Inr networks \<Rightarrow>
                 if networks = [] then
                   thenE (log ERROR
                     ''Docker network 'eas-net' does not exist. Please run 'ea-manager -i' first.'')
                     (returnE False)
                 else
                   catchE (deploy_container w self adapter_name tag adapter_config)
                     (\<lambda>e. let error_msg =
                                 ''Failed to deploy '' @ adapter_name @ '' adapter: '' @ str_exn e in
                        thenE (log ERROR error_msg)
                       (thenE (op_log (LogDeploy adapter_name (Some tag) False (Some error_msg)))
                              (returnE False)))))"

definition deploy_adapter :: "world \<Rightarrow> config_manager \<Rightarrow> string \<Rightarrow> pystr \<Rightarrow> bool prog" where
  "deploy_adapter w self adapter_name tag =
     (if \<not> truthy tag then
        bindE (get_available_tags w adapter_name) (\<lambda>tags. case tags of
           [] \<Rightarrow> thenE (log ERROR (''No tags found for '' @ adapter_name)) (returnE False)
         | t # ts \<Rightarrow> deploy_tagged w self adapter_name t)
      else deploy_tagged w self adapter_name (fmt tag))"

subsection \<open>upgrade_adapter\<close>

fun stop_and_remove_all :: "world \<Rightarrow> string \<Rightarrow> container list \<Rightarrow> unit prog" where
  "stop_and_remove_all w container_name [] = returnE ()"
| "stop_and_remove_all w container_name (c # cs) =
     thenE (log INFO (''Stopping and removing container '' @ container_name))
    (thenE (container_stop w c)
    (thenE (container_remove w c False)
           (stop_and_remove_all w container_name cs)))"

definition upgrade_adapter :: "world \<Rightarrow> config_manager \<Rightarrow> string \<Rightarrow> pystr \<Rightarrow> bool prog" where
  "upgrade_adapter w self adapter_name tag =
     (let container_name = adapter_name @ ''-redis'' in
      bindE (containers_list w container_name) (\<lambda>existing_containers.
        if existing_containers = [] then
          thenE (log ERROR (''Container '' @ container_name @ '' does not exist'')) (returnE False)
        else
          catchE
            (thenE (stop_and_remove_all w container_name existing_containers)
            (bindE (deploy_adapter w self adapter_name tag) (\<lambda>result.
             thenE (if result then op_log (LogUpgrade adapter_name tag True None) else returnE ())
                   (returnE result))))
            (\<lambda>e. let error_msg =
                        ''Failed to upgrade '' @ adapter_name @ '' adapter: '' @ str_exn e in
               thenE (log ERROR error_msg)
              (thenE (op_log (LogUpgrade adapter_name tag False (Some error_msg)))
                     (returnE False)))))"

subsection \<open>test_adapter\<close>

definition join :: "string \<Rightarrow> string list \<Rightarrow> string" where
  "join sep xs = (case xs of [] \<Rightarrow> [] | y # ys \<Rightarrow> foldl (\<lambda>a b. a @ sep @ b) y ys)"

text \<open>\<open>container.attrs['NetworkSettings']['Networks']['eas-net']['IPAddress']\<close>\<close>

definition eas_net_address :: "container \<Rightarrow> exn + string" where
  "eas_net_address c = (case map_of (ctr_networks c) ''eas-net'' of
       None \<Rightarrow> Inl (Exn KeyError ''eas-net'')
     | Some ip \<Rightarrow> Inr ip)"

definition dquote :: string where
  "dquote = [CHR 0x22]"

definition curl_cmd :: "string \<Rightarrow> string \<Rightarrow> string \<Rightarrow> string list" where
  "curl_cmd container_ip from_param to_param =
     [''curl'', ''-v'', ''--connect-timeout'', ''5'',
      ''--header'', ''Content-Type: application/json'',
      ''--request'', ''POST'',
      ''--data'', ''{'' @ dquote @ ''data'' @ dquote @ '':{'' @ dquote @ ''from'' @ dquote @ '':''
         @ dquote @ from_param @ dquote @ '', '' @ dquote @ ''to'' @ dquote @ '':''
         @ dquote @ to_param @ dquote @ ''}}'',
      ''http://'' @ container_ip @ '':1113'']"

text \<open>The inner \<open>try\<close>: the address of the container on \<open>eas-net\<close>, or the name given when
  the container is unknown or not attached (the bare \<open>except\<close> catches everything).\<close>

definition container_address :: "world \<Rightarrow> string \<Rightarrow> string prog" where
  "container_address w container_name =
     catchE (bindE (containers_get w container_name) (\<lambda>c. liftE (eas_net_address c)))
            (\<lambda>e. returnE container_name)"

text \<open>The value returned is Python's \<open>None\<close> (\<open>JNull\<close>) on every failure.\<close>

definition test_adapter ::
  "world \<Rightarrow> config_manager \<Rightarrow> string \<Rightarrow> string \<Rightarrow> string \<Rightarrow> json prog" where
  "test_adapter w self container_name from_param to_param =
     catchE
       (bindE (container_address w container_name) (\<lambda>container_ip.
        let cmd = curl_cmd container_ip from_param to_param in
        thenE (log INFO (''Running command: '' @ join '' '' cmd))
       (bindE (subprocess_run w cmd) (\<lambda>out.
        bindE (loads w out) (\<lambda>response.
        bindE (liftE (json_get response ''result'')) (\<lambda>adapter_result.
        thenE (log INFO (''Test result for '' @ container_name @ '': '' @ from_param @ '' / ''
                          @ to_param @ '' --> '' @ py_str w adapter_result))
       (thenE (op_log (LogTest container_name from_param to_param True adapter_result))
              (returnE adapter_result))))))))
       (\<lambda>e. let error_msg = (case e of
                   Exn CalledProcessError m \<Rightarrow> ''Failed to test adapter: '' @ m
                 | Exn JSONDecodeError m \<Rightarrow> ''Failed to parse adapter response: '' @ m
                 | Exn c m \<Rightarrow> ''Error testing adapter: '' @ m) in
          thenE (log ERROR error_msg)
         (thenE (op_log (LogTest container_name from_param to_param False (JStr error_msg)))
                (returnE JNull)))"

definition get_supported_adapters :: "config_manager \<Rightarrow> string list" where
  "get_supported_adapters self = map fst (adapter_configs self)"

section \<open>Observations on a run\<close>

text \<open>What a program adds to the call history, the log and the journal of the state it
  starts from.\<close>

definition new_events :: "'a prog \<Rightarrow> state \<Rightarrow> event list" where
  "new_events m s = drop (length (trace s)) (trace (snd (m s)))"

definition new_logs :: "'a prog \<Rightarrow> state \<Rightarrow> (level \<times> string) list" where
  "new_logs m s = drop (length (logs s)) (logs (snd (m s)))"

definition new_journal :: "'a prog \<Rightarrow> state \<Rightarrow> journal_call list" where
  "new_journal m s = drop (length (journal s)) (journal (snd (m s)))"

fun call_of :: "event \<Rightarrow> call" where
  "call_of (Event c ok) = c"

text \<open>The creation actions of Docker: a network created, a container run, a container
  connected to a network.\<close>

fun is_creation :: "event \<Rightarrow> bool" where
  "is_creation (Event (NetworksCreate n d sn g) ok) = True"
| "is_creation (Event (ContainersRun args) ok) = True"
| "is_creation (Event (NetworkConnect n c ip) ok) = True"
| "is_creation e = False"

definition descending :: "string list \<Rightarrow> bool" where
  "descending xs = sorted_wrt (\<lambda>a b. b \<le> a) xs"

definition strictly_descending :: "string list \<Rightarrow> bool" where
  "strictly_descending xs = sorted_wrt (\<lambda>a b. b < a) xs"

text \<open>
  A program only appends to the three components of the state. \<open>post m s Q\<close> says that
  \<open>m\<close>, run from \<open>s\<close>, ends in \<open>s\<close> extended by some events, log lines and journal
  entries, and that \<open>Q\<close> holds of its outcome and of what it appended.
\<close>

definition ext :: "state \<Rightarrow> event list \<Rightarrow> (level \<times> string) list \<Rightarrow> journal_call list \<Rightarrow> state" where
  "ext s t l j = \<lparr>trace = trace s @ t, logs = logs s @ l, journal = journal s @ j\<rparr>"

definition post ::
  "'a prog \<Rightarrow> state \<Rightarrow> ((exn + 'a) \<Rightarrow> event list \<Rightarrow> (level \<times> string) list \<Rightarrow> journal_call list \<Rightarrow> bool) \<Rightarrow> bool" where
  "post m s Q = (\<exists>t l j. snd (m s) = ext s t l j \<and> Q (fst (m s)) t l j)"

text \<open>Kinds of events, and what \<open>connect_to_network\<close> leaves behind: no creation
  action but attachments, and among these nothing, one successful attachment at the
  address asked for, or a failed one followed by an attachment without address and
  announced by a warning.\<close>

fun is_connect :: "event \<Rightarrow> bool" where
  "is_connect (Event (NetworkConnect n c ip) ok) = True"
| "is_connect e = False"

fun is_docker_check :: "event \<Rightarrow> bool" where
  "is_docker_check (Event IsDockerInstalled ok) = True"
| "is_docker_check (Event HasSudoPrivileges ok) = True"
| "is_docker_check (Event InstallDocker ok) = True"
| "is_docker_check (Event IsDockerRunning ok) = True"
| "is_docker_check (Event StartDocker ok) = True"
| "is_docker_check e = False"

fun is_removal :: "event \<Rightarrow> bool" where
  "is_removal (Event (ContainerStop c) ok) = True"
| "is_removal (Event (ContainerRemove c force) ok) = True"
| "is_removal e = False"

definition warned :: "string \<Rightarrow> (level \<times> string) list \<Rightarrow> bool" where
  "warned p l = (\<exists>m. (WARNING, p @ m) \<in> set l)"


text \<open>What the attachments of a run look like after \<open>connect_to_network\<close>, for the
  warning \<open>wm\<close> of the fallback.\<close>

definition attachment :: "string \<Rightarrow> event list \<Rightarrow> (level \<times> string) list \<Rightarrow> bool" where
  "attachment wm cs l =
     (cs = []
      \<or> (\<exists>n c ip. cs = [Event (NetworkConnect n c ip) True])
      \<or> (\<exists>n c ip b. cs = [Event (NetworkConnect n c ip) False, Event (NetworkConnect n c None) b]
            \<and> warned wm l))"

text \<open>The outcomes of \<open>deploy_adapter\<close> for the adapter \<open>a\<close>: success with one journal
  entry; failure inside the last \<open>try\<close>, before any attachment, with one journal entry;
  an early return or an exception escaping, before any creation action and without
  journal entry.\<close>

definition deployed ::
  "string \<Rightarrow> (exn + bool) \<Rightarrow> event list \<Rightarrow> (level \<times> string) list \<Rightarrow> journal_call list \<Rightarrow> bool" where
  "deployed a r t l j =
     ((r = Inr True \<and> (\<exists>tg. j = [LogDeploy a (Some tg) True None])
         \<and> attachment ''Failed to set static IP: '' (filter is_connect t) l)
      \<or> (r = Inr False \<and> filter is_connect t = []
           \<and> (\<exists>tg d. j = [LogDeploy a (Some tg) False (Some d)]))
      \<or> (r \<noteq> Inr True \<and> filter is_creation t = [] \<and> j = []))"


text \<open>The outcomes of \<open>test_adapter\<close>: the value returned and the one journal entry.\<close>

definition tested ::
  "string \<Rightarrow> string \<Rightarrow> string \<Rightarrow> (exn + json) \<Rightarrow> journal_call list \<Rightarrow> bool" where
  "tested c f t r j =
     ((\<exists>v. r = Inr v \<and> j = [LogTest c f t True v])
      \<or> (\<exists>d. r = Inr JNull \<and> j = [LogTest c f t False (JStr d)]))"

text \<open>
  How an \<open>http\<close> URL is read (RFC 3986): the authority runs from behind \<open>http://\<close> to the
  first \<open>/\<close>, \<open>?\<close> or \<open>#\<close>; the port is what follows its last colon, the host what
  precedes it. A host is plain when it holds none of the delimiters of a URL.
\<close>

definition url_authority :: "string \<Rightarrow> string" where
  "url_authority url = takeWhile (\<lambda>c. c \<notin> set ''/?#'') (drop 7 url)"

definition url_port :: "string \<Rightarrow> string" where
  "url_port url = rev (takeWhile (\<lambda>c. c \<noteq> CHR '':'') (rev (url_authority url)))"

definition url_host :: "string \<Rightarrow> string" where
  "url_host url = rev (drop 1 (dropWhile (\<lambda>c. c \<noteq> CHR '':'') (rev (url_authority url))))"

definition plain_host :: "string \<Rightarrow> bool" where
  "plain_host h = list_all (\<lambda>c. c \<notin> set ''/?#@:'') h"

section \<open>Scenarios\<close>

text \<open>The \<open>int\<close> of the scenarios reads strings of ASCII decimal digits and rejects
  everything else.\<close>

definition is_digit :: "char \<Rightarrow> bool" where
  "is_digit c = (CHR ''0'' \<le> c \<and> c \<le> CHR ''9'')"

definition decimal :: "string \<Rightarrow> string + int" where
  "decimal s =
     (if s \<noteq> [] \<and> list_all is_digit s
      then Inr (foldl (\<lambda>a c. 10 * a + (int (of_char c) - 48)) 0 s)
      else Inl (''invalid literal for int() with base 10: '' @ squote @ s @ squote))"

text \<open>
  A world in which every call succeeds: Docker is installed and running, the volume
  directory and the network \<open>eas-net\<close> exist, no container exists yet, every container
  looked up is attached to \<open>eas-net\<close>, the registry lists three tags and the adapter
  answers with a result.
\<close>

definition quiet_world :: world where
  "quiet_world =
     \<lparr>flag_of = (\<lambda>tr c. True),
      unit_of = (\<lambda>tr c. Inr ()),
      networks_of = (\<lambda>tr c. Inr [''eas-net'']),
      network_of = (\<lambda>tr c. Inr ''eas-net''),
      containers_of = (\<lambda>tr c. Inr []),
      container_of = (\<lambda>tr c. case c of
          ContainersGet n \<Rightarrow> Inr \<lparr>ctr_name = n, ctr_networks = [(''eas-net'', ''192.168.1.113'')]\<rparr>
        | _ \<Rightarrow> Inl (Exn OtherException ''not a lookup'')),
      stdout_of = (\<lambda>tr c. Inr ''ok''),
      expanduser = (\<lambda>p. ''/root'' @ tl p),
      json_loads = (\<lambda>text. Inr (JObj [(''result'', JNum 42)])),
      registry_loads = (\<lambda>text. Inr (RObject (TagsList [''3.1.0'', ''3.2.1'', ''3.2.0'']))),
      int_of_str = decimal,
      py_str = (\<lambda>v. ''42'')\<rparr>"

text \<open>The fleet of the scenarios: \<open>coingecko\<close> fully discovered with a stored key, \<open>bare\<close>
  with nothing discovered, \<open>noip\<close> with only a port, \<open>blank\<close> whose credential variables
  are stored empty.\<close>

definition fleet :: config_manager where
  "fleet =
     \<lparr>api_keys = [(''COINGECKO_API_KEY'', ''abc123''), (''BLANK_KEY'', []), (''BLANK_TIER'', [])],
      adapter_configs =
        [(''coingecko'', adapter_entry (Some ''192.168.1.113'') (Some ''1113'')
                           (Some ''COINGECKO_API_KEY'') None),
         (''bare'', adapter_entry None None None None),
         (''noip'', adapter_entry None (Some ''8080'') None None),
         (''blank'', adapter_entry (Some ''192.168.1.114'') (Some ''1114'')
                       (Some ''BLANK_KEY'') (Some ''BLANK_TIER''))]\<rparr>"

text \<open>The registry lists one tag twice.\<close>

definition duplicate_tags_world :: world where
  "duplicate_tags_world =
     quiet_world\<lparr>registry_loads := (\<lambda>text. Inr (RObject (TagsList [''1.0'', ''1.0''])))\<rparr>"

text \<open>\<open>skopeo\<close> exits with a non-zero status; \<open>skopeo\<close> prints no JSON; the registry has no
  tag.\<close>

definition failing_registry_world :: world where
  "failing_registry_world =
     quiet_world\<lparr>stdout_of := (\<lambda>tr c. Inl (Exn CalledProcessError ''returned non-zero exit status 1''))\<rparr>"

definition garbled_registry_world :: world where
  "garbled_registry_world =
     quiet_world\<lparr>registry_loads := (\<lambda>text. Inl ''Expecting value: line 1 column 1 (char 0)'')\<rparr>"

definition empty_registry_world :: world where
  "empty_registry_world = quiet_world\<lparr>registry_loads := (\<lambda>text. Inr (RObject (TagsList [])))\<rparr>"

text \<open>The adapter answers with JSON that has no \<open>result\<close> field.\<close>

definition no_result_world :: world where
  "no_result_world = quiet_world\<lparr>json_loads := (\<lambda>text. Inr (JObj [(''error'', JStr ''x'')]))\<rparr>"






text \<open>No container is known to Docker.\<close>

definition unknown_container_world :: world where
  "unknown_container_world =
     quiet_world\<lparr>container_of := (\<lambda>tr c. Inl (Exn OtherException ''No such container''))\<rparr>"

section \<open>Properties\<close>

lemmas prog_defs = returnE_def raiseE_def bindE_def thenE_def catchE_def liftE_def tryE_def
  perform_def query_def log_def op_log_def Let_def

subsection \<open>Rules for postconditions\<close>

lemma ext_simps [simp]:
  "trace (ext s t l j) = trace s @ t"
  "logs (ext s t l j) = logs s @ l"
  "journal (ext s t l j) = journal s @ j"
  by (simp_all add: ext_def)

lemma ext_ext: "ext (ext s t l j) t' l' j' = ext s (t @ t') (l @ l') (j @ j')"
  by (simp add: ext_def)

lemma ext_nil: "ext s [] [] [] = s"
  by (simp add: ext_def)

lemma post_obs:
  "post m s Q \<Longrightarrow> Q (fst (m s)) (new_events m s) (new_logs m s) (new_journal m s)"
  by (auto simp: post_def new_events_def new_logs_def new_journal_def)


lemma post_returnE: "Q (Inr x) [] [] [] \<Longrightarrow> post (returnE x) s Q"
  unfolding post_def returnE_def by (metis ext_nil fst_conv snd_conv)

lemma post_raiseE: "Q (Inl e) [] [] [] \<Longrightarrow> post (raiseE e) s Q"
  unfolding post_def raiseE_def by (metis ext_nil fst_conv snd_conv)

lemma post_liftE: "Q r [] [] [] \<Longrightarrow> post (liftE r) s Q"
  unfolding post_def liftE_def by (metis ext_nil fst_conv snd_conv)

lemma post_log: "Q (Inr ()) [] [(lv, m)] [] \<Longrightarrow> post (log lv m) s Q"
  unfolding post_def log_def
  by (rule exI [of _ "[]"], rule exI [of _ "[(lv, m)]"], rule exI [of _ "[]"]) (simp add: ext_def)

lemma post_op_log: "Q (Inr ()) [] [] [jc] \<Longrightarrow> post (op_log jc) s Q"
  unfolding post_def op_log_def
  by (rule exI [of _ "[]"], rule exI [of _ "[]"], rule exI [of _ "[jc]"]) (simp add: ext_def)

lemma post_query:
  "Q (Inr (flag_of w (trace s) c)) [Event c True] [] [] \<Longrightarrow> post (query w c) s Q"
  unfolding post_def query_def
  by (rule exI [of _ "[Event c True]"], rule exI [of _ "[]"], rule exI [of _ "[]"])
     (simp add: ext_def)

lemma post_perform:
  "(\<And>e. f (trace s) c = Inl e \<Longrightarrow> Q (Inl e) [Event c False] [] []) \<Longrightarrow>
   (\<And>x. f (trace s) c = Inr x \<Longrightarrow> Q (Inr x) [Event c True] [] []) \<Longrightarrow>
   post (perform f c) s Q"
proof (cases "f (trace s) c")
  case (Inl e)
  assume "\<And>e. f (trace s) c = Inl e \<Longrightarrow> Q (Inl e) [Event c False] [] []"
  with Inl have "Q (Inl e) [Event c False] [] []" by simp
  with Inl show ?thesis
    unfolding post_def perform_def
    by (intro exI [of _ "[Event c False]"] exI [of _ "[]"]) (simp add: ext_def)
next
  case (Inr x)
  assume "\<And>x. f (trace s) c = Inr x \<Longrightarrow> Q (Inr x) [Event c True] [] []"
  with Inr have "Q (Inr x) [Event c True] [] []" by simp
  with Inr show ?thesis
    unfolding post_def perform_def
    by (intro exI [of _ "[Event c True]"] exI [of _ "[]"]) (simp add: ext_def)
qed

lemma post_bindE:
  assumes "post m s (\<lambda>r t l j. case r of
              Inl e \<Rightarrow> Q (Inl e) t l j
            | Inr x \<Rightarrow> post (f x) (ext s t l j) (\<lambda>r' t' l' j'. Q r' (t @ t') (l @ l') (j @ j')))"
  shows "post (bindE m f) s Q"
proof -
  from assms obtain t l j where s1: "snd (m s) = ext s t l j"
    and q: "case fst (m s) of
              Inl e \<Rightarrow> Q (Inl e) t l j
            | Inr x \<Rightarrow> post (f x) (ext s t l j) (\<lambda>r' t' l' j'. Q r' (t @ t') (l @ l') (j @ j'))"
    unfolding post_def by blast
  show ?thesis
  proof (cases "fst (m s)")
    case (Inl e)
    with s1 q show ?thesis
      unfolding post_def bindE_def by (cases "m s") auto
  next
    case (Inr x)
    with q obtain t' l' j' where s2: "snd (f x (ext s t l j)) = ext (ext s t l j) t' l' j'"
      and q2: "Q (fst (f x (ext s t l j))) (t @ t') (l @ l') (j @ j')"
      unfolding post_def by auto
    from Inr s1 have "bindE m f s = f x (ext s t l j)"
      unfolding bindE_def by (cases "m s") auto
    with s2 q2 show ?thesis
      unfolding post_def by (auto simp: ext_ext)
  qed
qed

lemma post_thenE:
  assumes "post m s (\<lambda>r t l j. case r of
              Inl e \<Rightarrow> Q (Inl e) t l j
            | Inr x \<Rightarrow> post n (ext s t l j) (\<lambda>r' t' l' j'. Q r' (t @ t') (l @ l') (j @ j')))"
  shows "post (thenE m n) s Q"
  unfolding thenE_def using assms by (rule post_bindE)

lemma post_catchE:
  assumes "post m s (\<lambda>r t l j. case r of
              Inr x \<Rightarrow> Q (Inr x) t l j
            | Inl e \<Rightarrow> post (h e) (ext s t l j) (\<lambda>r' t' l' j'. Q r' (t @ t') (l @ l') (j @ j')))"
  shows "post (catchE m h) s Q"
proof -
  from assms obtain t l j where s1: "snd (m s) = ext s t l j"
    and q: "case fst (m s) of
              Inr x \<Rightarrow> Q (Inr x) t l j
            | Inl e \<Rightarrow> post (h e) (ext s t l j) (\<lambda>r' t' l' j'. Q r' (t @ t') (l @ l') (j @ j'))"
    unfolding post_def by blast
  show ?thesis
  proof (cases "fst (m s)")
    case (Inr x)
    with s1 q show ?thesis
      unfolding post_def catchE_def by (cases "m s") auto
  next
    case (Inl e)
    with q obtain t' l' j' where s2: "snd (h e (ext s t l j)) = ext (ext s t l j) t' l' j'"
      and q2: "Q (fst (h e (ext s t l j))) (t @ t') (l @ l') (j @ j')"
      unfolding post_def by auto
    from Inl s1 have "catchE m h s = h e (ext s t l j)"
      unfolding catchE_def by (cases "m s") auto
    with s2 q2 show ?thesis
      unfolding post_def by (auto simp: ext_ext)
  qed
qed

lemma post_tryE:
  assumes "post m s (\<lambda>r t l j. Q (Inr r) t l j)"
  shows "post (tryE m) s Q"
  using assms unfolding post_def tryE_def by (cases "m s") auto

lemmas post_rules = post_returnE post_raiseE post_liftE post_log post_op_log post_query
  post_perform post_bindE post_thenE post_catchE post_tryE

lemmas call_defs = networks_list_def networks_create_def networks_get_def network_connect_def
  containers_list_def containers_run_def containers_get_def container_stop_def
  container_remove_def makedirs_def subprocess_run_def

subsection \<open>The blocks of the manager\<close>

lemma docker_check_event:
  "is_docker_check e \<Longrightarrow> \<not> is_creation e \<and> \<not> is_connect e"
  by (cases e rule: is_creation.cases) auto

lemma removal_event: "is_removal e \<Longrightarrow> \<not> is_creation e \<and> \<not> is_connect e"
  by (cases e rule: is_creation.cases) auto


lemma docker_checks_filter:
  "list_all is_docker_check t \<Longrightarrow> filter is_creation t = [] \<and> filter is_connect t = []"
  by (auto simp: filter_empty_conv list_all_iff dest: docker_check_event)

lemma removals_filter:
  "list_all is_removal t \<Longrightarrow> filter is_creation t = [] \<and> filter is_connect t = []"
  by (auto simp: filter_empty_conv list_all_iff dest: removal_event)



lemma ensure_docker_running_trace_only:
  "trace s = trace s' \<Longrightarrow> fst (ensure_docker_running w s) = fst (ensure_docker_running w s')"
  unfolding ensure_docker_running_def ensure_daemon_def prog_defs
  by (simp split: prod.splits sum.splits)






lemma docker_checks_no_creation [simp]:
  "list_all is_docker_check t \<Longrightarrow> filter is_creation t = []"
  by (simp add: docker_checks_filter)

lemma docker_checks_no_connect [simp]:
  "list_all is_docker_check t \<Longrightarrow> filter is_connect t = []"
  by (simp add: docker_checks_filter)

lemma removals_no_creation [simp]:
  "list_all is_removal t \<Longrightarrow> filter is_creation t = []"
  by (simp add: removals_filter)

lemma removals_no_connect [simp]:
  "list_all is_removal t \<Longrightarrow> filter is_connect t = []"
  by (simp add: removals_filter)

lemma ensure_docker_running_ext [simp]:
  "fst (ensure_docker_running w (ext s [] l j)) = fst (ensure_docker_running w s)"
  by (rule ensure_docker_running_trace_only) simp

lemma warned_append [simp]: "warned p (l @ l') \<longleftrightarrow> warned p l \<or> warned p l'"
  unfolding warned_def by auto

lemma warned_Cons [simp]:
  "warned p (x # l) \<longleftrightarrow> (\<exists>m. x = (WARNING, p @ m)) \<or> warned p l"
  unfolding warned_def by auto

lemma warned_Nil [simp]: "\<not> warned p []"
  unfolding warned_def by simp




subsection \<open>initialize_environment\<close>


subsection \<open>deploy_adapter\<close>









subsection \<open>upgrade_adapter\<close>


subsection \<open>test_adapter\<close>

lemma container_address_spec:
  assumes "\<And>h ok. fst (container_address w c s) = Inr h
             \<Longrightarrow> Q (Inr h) [Event (ContainersGet c) ok] [] []"
  shows "post (container_address w c) s Q"
proof -
  have "post (container_address w c) s
          (\<lambda>r t l j. (\<exists>h. r = Inr h) \<and> (\<exists>ok. t = [Event (ContainersGet c) ok]) \<and> l = [] \<and> j = [])"
    unfolding container_address_def call_defs
    by (auto intro!: post_rules split: sum.splits)
  then obtain t l j where s': "snd (container_address w c s) = ext s t l j"
    and h: "\<exists>h. fst (container_address w c s) = Inr h"
    and t: "\<exists>ok. t = [Event (ContainersGet c) ok]" and l: "l = []" and j: "j = []"
    unfolding post_def by blast
  from h obtain h where h: "fst (container_address w c s) = Inr h" ..
  from t obtain ok where t: "t = [Event (ContainersGet c) ok]" ..
  from assms [OF h, of ok] s' h t l j show ?thesis
    unfolding post_def by auto
qed

lemma test_adapter_summary:
  "post (test_adapter w self c f t) s (\<lambda>r tr l j.
      tested c f t r j
      \<and> map call_of tr =
          [ContainersGet c, SubprocessRun (curl_cmd (projr (fst (container_address w c s))) f t)])"
  unfolding test_adapter_def call_defs Let_def loads_def
  by (auto intro!: post_rules container_address_spec
        split: sum.splits option.splits exn.splits exn_class.splits simp: tested_def)

subsection \<open>Tag listing\<close>

lemma descending_rev_sort: "descending (rev (sort ts))"
  unfolding descending_def by (simp add: sorted_wrt_rev)

lemma descending_take: "descending xs \<Longrightarrow> descending (take n xs)"
  unfolding descending_def by (metis sorted_wrt_take)

lemma strictly_descending_rev_sort: "distinct ts \<Longrightarrow> strictly_descending (rev (sort ts))"
  unfolding strictly_descending_def
  by (simp add: sorted_wrt_rev) (metis distinct_sort sorted_sort strict_sorted_iff)

lemma strictly_descending_take: "strictly_descending xs \<Longrightarrow> strictly_descending (take n xs)"
  unfolding strictly_descending_def by (metis sorted_wrt_take)

lemma get_available_tags_listed:
  assumes "stdout_of w (trace s) (SubprocessRun (skopeo_cmd a)) = Inr out"
      and "registry_loads w out = Inr (RObject (TagsList ts))"
  shows "get_available_tags w a s =
           (Inr (take 10 (rev (sort ts))),
            s\<lparr>trace := trace s @ [Event (SubprocessRun (skopeo_cmd a)) True]\<rparr>)"
  using assms
  by (simp add: get_available_tags_def prog_defs subprocess_run_def loads_registry_def)

lemma quiet_tags: "rev (sort [''3.1.0'', ''3.2.1'', ''3.2.0'']) = [''3.2.1'', ''3.2.0'', ''3.1.0'']"
  by code_simp

text \<open>
  C6. For a registry answer with a \<open>Tags\<close> array, \<open>get_available_tags\<close> returns the first
  ten elements at most of the descending sort of the raw tags, in that order. The result
  is descending; it is strictly descending when the raw tags are pairwise distinct (the
  function does not remove duplicates).
\<close>

theorem get_available_tags_descending_prefix:
  assumes "stdout_of w (trace s) (SubprocessRun (skopeo_cmd a)) = Inr out"
      and "registry_loads w out = Inr (RObject (TagsList ts))"
  shows "fst (get_available_tags w a s) = Inr (take 10 (rev (sort ts)))
       \<and> descending (take 10 (rev (sort ts)))
       \<and> length (take 10 (rev (sort ts))) \<le> 10
       \<and> (distinct ts \<longrightarrow> strictly_descending (take 10 (rev (sort ts))))"
  using get_available_tags_listed [OF assms]
  by (simp add: descending_take descending_rev_sort strictly_descending_take
        strictly_descending_rev_sort)

theorem get_available_tags_descending_prefix_witness:
  "fst (get_available_tags quiet_world ''coingecko'' init_state) = Inr [''3.2.1'', ''3.2.0'', ''3.1.0'']
   \<and> strictly_descending [''3.2.1'', ''3.2.0'', ''3.1.0'']"
proof -
  have a: "stdout_of quiet_world (trace init_state) (SubprocessRun (skopeo_cmd ''coingecko'')) = Inr ''ok''"
    by (simp add: quiet_world_def)
  have b: "registry_loads quiet_world ''ok'' = Inr (RObject (TagsList [''3.1.0'', ''3.2.1'', ''3.2.0'']))"
    by (simp add: quiet_world_def)
  have d: "distinct [''3.1.0'', ''3.2.1'', ''3.2.0'']" by simp
  show ?thesis
    using get_available_tags_descending_prefix [OF a b] d by (simp add: quiet_tags)
qed

theorem duplicate_tags_counterexample:
  "fst (get_available_tags duplicate_tags_world ''coingecko'' init_state) = Inr [''1.0'', ''1.0'']
   \<and> \<not> strictly_descending [''1.0'', ''1.0'']"
proof -
  have a: "stdout_of duplicate_tags_world (trace init_state) (SubprocessRun (skopeo_cmd ''coingecko'')) = Inr ''ok''"
    by (simp add: duplicate_tags_world_def quiet_world_def)
  have b: "registry_loads duplicate_tags_world ''ok'' = Inr (RObject (TagsList [''1.0'', ''1.0'']))"
    by (simp add: duplicate_tags_world_def quiet_world_def)
  have c: "rev (sort [''1.0'', ''1.0'']) = [''1.0'', ''1.0'']" by code_simp
  show ?thesis
    using get_available_tags_listed [OF a b] by (simp add: c strictly_descending_def)
qed

lemma get_available_tags_exit_status:
  assumes "stdout_of w (trace s) (SubprocessRun (skopeo_cmd a)) = Inl (Exn CalledProcessError m)"
  shows "get_available_tags w a s =
           (Inr [], s\<lparr>trace := trace s @ [Event (SubprocessRun (skopeo_cmd a)) False],
                      logs := logs s @ [(ERROR, ''Failed to get tags for '' @ a @ '': '' @ m)]\<rparr>)"
  using assms
  by (simp add: get_available_tags_def prog_defs subprocess_run_def loads_registry_def)

lemma get_available_tags_not_json:
  assumes "stdout_of w (trace s) (SubprocessRun (skopeo_cmd a)) = Inr out"
      and "registry_loads w out = Inl m"
  shows "get_available_tags w a s =
           (Inr [], s\<lparr>trace := trace s @ [Event (SubprocessRun (skopeo_cmd a)) True],
                      logs := logs s @ [(ERROR, ''Failed to parse tags for '' @ a @ '': '' @ m)]\<rparr>)"
  using assms
  by (simp add: get_available_tags_def prog_defs subprocess_run_def loads_registry_def)

lemma failing_registry_stdout:
  "stdout_of failing_registry_world tr c = Inl (Exn CalledProcessError ''returned non-zero exit status 1'')"
  by (simp add: failing_registry_world_def)

lemma garbled_registry_stdout: "stdout_of garbled_registry_world tr c = Inr ''ok''"
  by (simp add: garbled_registry_world_def quiet_world_def)

lemma garbled_registry_loads:
  "registry_loads garbled_registry_world text = Inl ''Expecting value: line 1 column 1 (char 0)''"
  by (simp add: garbled_registry_world_def)

lemma empty_registry_stdout: "stdout_of empty_registry_world tr c = Inr ''ok''"
  by (simp add: empty_registry_world_def quiet_world_def)

lemma empty_registry_loads:
  "registry_loads empty_registry_world text = Inr (RObject (TagsList []))"
  by (simp add: empty_registry_world_def)

text \<open>
  C4. \<open>get_available_tags\<close> does not fail when the registry query exits with a non-zero
  status or prints something that is not JSON: it logs an error and returns the empty
  list, the value it also returns, without logging, for a registry that lists no tag.
\<close>

theorem get_available_tags_failure_is_empty_list:
  "(stdout_of w (trace s) (SubprocessRun (skopeo_cmd a)) = Inl (Exn CalledProcessError m)
      \<longrightarrow> fst (get_available_tags w a s) = Inr []
        \<and> new_logs (get_available_tags w a) s = [(ERROR, ''Failed to get tags for '' @ a @ '': '' @ m)])
   \<and> (stdout_of w (trace s) (SubprocessRun (skopeo_cmd a)) = Inr out \<and> registry_loads w out = Inl m
      \<longrightarrow> fst (get_available_tags w a s) = Inr []
        \<and> new_logs (get_available_tags w a) s
            = [(ERROR, ''Failed to parse tags for '' @ a @ '': '' @ m)])
   \<and> (stdout_of w (trace s) (SubprocessRun (skopeo_cmd a)) = Inr out
        \<and> registry_loads w out = Inr (RObject (TagsList []))
      \<longrightarrow> fst (get_available_tags w a s) = Inr []
        \<and> new_logs (get_available_tags w a) s = [])"
proof (intro conjI impI)
  assume h: "stdout_of w (trace s) (SubprocessRun (skopeo_cmd a)) = Inl (Exn CalledProcessError m)"
  show "fst (get_available_tags w a s) = Inr []"
    by (simp only: get_available_tags_exit_status [OF h] fst_conv)
  show "new_logs (get_available_tags w a) s = [(ERROR, ''Failed to get tags for '' @ a @ '': '' @ m)]"
    unfolding new_logs_def by (simp only: get_available_tags_exit_status [OF h]) simp
next
  assume h: "stdout_of w (trace s) (SubprocessRun (skopeo_cmd a)) = Inr out \<and> registry_loads w out = Inl m"
  note eq = get_available_tags_not_json [OF conjunct1 [OF h] conjunct2 [OF h]]
  show "fst (get_available_tags w a s) = Inr []"
    by (simp only: eq fst_conv)
  show "new_logs (get_available_tags w a) s = [(ERROR, ''Failed to parse tags for '' @ a @ '': '' @ m)]"
    unfolding new_logs_def by (simp only: eq) simp
next
  assume h: "stdout_of w (trace s) (SubprocessRun (skopeo_cmd a)) = Inr out
        \<and> registry_loads w out = Inr (RObject (TagsList []))"
  note eq = get_available_tags_listed [OF conjunct1 [OF h] conjunct2 [OF h]]
  show "fst (get_available_tags w a s) = Inr []"
    by (simp only: eq fst_conv) simp
  show "new_logs (get_available_tags w a) s = []"
    unfolding new_logs_def by (simp only: eq) simp
qed

theorem get_available_tags_failure_is_empty_list_witness:
  "fst (get_available_tags failing_registry_world ''coingecko'' init_state) = Inr []
   \<and> new_logs (get_available_tags failing_registry_world ''coingecko'') init_state
       = [(ERROR, ''Failed to get tags for coingecko: returned non-zero exit status 1'')]
   \<and> fst (get_available_tags garbled_registry_world ''coingecko'' init_state) = Inr []
   \<and> new_logs (get_available_tags garbled_registry_world ''coingecko'') init_state
       = [(ERROR, ''Failed to parse tags for coingecko: Expecting value: line 1 column 1 (char 0)'')]
   \<and> fst (get_available_tags empty_registry_world ''coingecko'' init_state) = Inr []
   \<and> new_logs (get_available_tags empty_registry_world ''coingecko'') init_state = []"
proof -
  note a = get_available_tags_failure_is_empty_list
          [of failing_registry_world init_state "''coingecko''" "''returned non-zero exit status 1''",
           THEN conjunct1, rule_format, OF failing_registry_stdout]
  note b = get_available_tags_failure_is_empty_list
          [of garbled_registry_world init_state "''coingecko''" _ "''ok''",
           THEN conjunct2, THEN conjunct1, rule_format,
           OF conjI [OF garbled_registry_stdout garbled_registry_loads]]
  note c = get_available_tags_failure_is_empty_list
          [of empty_registry_world init_state "''coingecko''" _ "''ok''",
           THEN conjunct2, THEN conjunct2, rule_format,
           OF conjI [OF empty_registry_stdout empty_registry_loads]]
  from a b c show ?thesis by simp
qed

theorem registry_failure_counterexample:
  "fst (get_available_tags failing_registry_world ''coingecko'' init_state) = Inr []
   \<and> fst (get_available_tags garbled_registry_world ''coingecko'' init_state) = Inr []
   \<and> fst (get_available_tags empty_registry_world ''coingecko'' init_state) = Inr []"
proof -
  have "fst (get_available_tags failing_registry_world ''coingecko'' init_state) = Inr []"
    by (simp only: get_available_tags_exit_status [OF failing_registry_stdout] fst_conv)
  moreover have "fst (get_available_tags garbled_registry_world ''coingecko'' init_state) = Inr []"
    by (simp only: get_available_tags_not_json [OF garbled_registry_stdout garbled_registry_loads] fst_conv)
  moreover have "fst (get_available_tags empty_registry_world ''coingecko'' init_state) = Inr []"
    by (simp only: get_available_tags_listed [OF empty_registry_stdout empty_registry_loads] fst_conv) simp
  ultimately show ?thesis by simp
qed

subsection \<open>Credentials in the environment\<close>

lemma base_env_vars_no_credentials:
  "map_of (base_env_vars a cfg) ''API_KEY'' = None"
  "map_of (base_env_vars a cfg) ''RATE_LIMIT_API_TIER'' = None"
  by (simp_all add: base_env_vars_def)

lemma get_api_key_stored:
  assumes "get_adapter_config self a = Some cfg" and "cfg \<noteq> []"
  shows "get_api_key self a =
     (case dict_get cfg ''api_key_var'' None of
        None \<Rightarrow> None
      | Some v \<Rightarrow> if v = [] then None else map_of (api_keys self) v)"
  using assms by (simp add: get_api_key_def)

lemma get_subscription_tier_stored:
  assumes "get_adapter_config self a = Some cfg" and "cfg \<noteq> []"
  shows "get_subscription_tier self a =
     (case dict_get cfg ''sub_tier_var'' None of
        None \<Rightarrow> None
      | Some v \<Rightarrow> if v = [] then None else map_of (api_keys self) v)"
  using assms by (simp add: get_subscription_tier_def)

text \<open>
  C5. For an adapter with the configuration \<open>cfg\<close>, the environment built by
  \<open>deploy_adapter\<close> holds \<open>API_KEY\<close> exactly when \<open>cfg\<close> names a credential variable and the
  credential store holds a non-empty value under that name, and then \<open>API_KEY\<close> is that
  stored value; without a variable name, without a stored value, or with the empty
  string stored, there is no \<open>API_KEY\<close>. The same holds of \<open>RATE_LIMIT_API_TIER\<close> and the
  variable named by \<open>sub_tier_var\<close>.
\<close>

theorem env_vars_credentials:
  assumes "get_adapter_config self a = Some cfg" and "cfg \<noteq> []"
  shows "map_of (env_vars self a cfg) ''API_KEY''
     = (case dict_get cfg ''api_key_var'' None of
          None \<Rightarrow> None
        | Some v \<Rightarrow>
            if v = [] then None
            else (case map_of (api_keys self) v of
                    None \<Rightarrow> None
                  | Some k \<Rightarrow> if k = [] then None else Some (Some k)))
   \<and> map_of (env_vars self a cfg) ''RATE_LIMIT_API_TIER''
     = (case dict_get cfg ''sub_tier_var'' None of
          None \<Rightarrow> None
        | Some v \<Rightarrow>
            if v = [] then None
            else (case map_of (api_keys self) v of
                    None \<Rightarrow> None
                  | Some k \<Rightarrow> if k = [] then None else Some (Some k)))"
  by (simp add: env_vars_def Let_def update_conv' base_env_vars_no_credentials
        get_api_key_stored [OF assms] get_subscription_tier_stored [OF assms]
        split: option.splits)

lemma fleet_coingecko:
  "get_adapter_config fleet ''coingecko''
     = Some (adapter_entry (Some ''192.168.1.113'') (Some ''1113'') (Some ''COINGECKO_API_KEY'') None)"
  by code_simp

lemma coingecko_entry_not_empty:
  "adapter_entry (Some ''192.168.1.113'') (Some ''1113'') (Some ''COINGECKO_API_KEY'') None \<noteq> []"
  by (simp add: adapter_entry_def)

theorem env_vars_credentials_witness:
  "get_adapter_config fleet ''coingecko''
     = Some (adapter_entry (Some ''192.168.1.113'') (Some ''1113'') (Some ''COINGECKO_API_KEY'') None)
   \<and> map_of (api_keys fleet) ''COINGECKO_API_KEY'' = Some ''abc123''
   \<and> map_of (env_vars fleet ''coingecko''
        (adapter_entry (Some ''192.168.1.113'') (Some ''1113'') (Some ''COINGECKO_API_KEY'') None))
        ''API_KEY'' = Some (Some ''abc123'')
   \<and> map_of (env_vars fleet ''coingecko''
        (adapter_entry (Some ''192.168.1.113'') (Some ''1113'') (Some ''COINGECKO_API_KEY'') None))
        ''RATE_LIMIT_API_TIER'' = None"
proof -
  have k: "map_of (api_keys fleet) ''COINGECKO_API_KEY'' = Some ''abc123''" by code_simp
  have v: "dict_get (adapter_entry (Some ''192.168.1.113'') (Some ''1113'')
              (Some ''COINGECKO_API_KEY'') None) ''api_key_var'' None = Some ''COINGECKO_API_KEY''"
    by code_simp
  have t: "dict_get (adapter_entry (Some ''192.168.1.113'') (Some ''1113'')
              (Some ''COINGECKO_API_KEY'') None) ''sub_tier_var'' None = None"
    by code_simp
  from env_vars_credentials [OF fleet_coingecko coingecko_entry_not_empty] fleet_coingecko k
  show ?thesis
    by (simp add: v t)
qed

theorem empty_credential_counterexample:
  "get_api_key fleet ''blank'' = Some []
   \<and> map_of (env_vars fleet ''blank'' (adapter_entry (Some ''192.168.1.114'') (Some ''1114'')
                (Some ''BLANK_KEY'') (Some ''BLANK_TIER''))) ''API_KEY'' = None
   \<and> get_subscription_tier fleet ''blank'' = Some []
   \<and> map_of (env_vars fleet ''blank'' (adapter_entry (Some ''192.168.1.114'') (Some ''1114'')
                (Some ''BLANK_KEY'') (Some ''BLANK_TIER''))) ''RATE_LIMIT_API_TIER'' = None"
  by code_simp

subsection \<open>Adapters with incomplete static discovery\<close>

lemma adapter_entry_get:
  "dict_get (adapter_entry ip port api_key_var sub_tier_var) ''ip'' d = ip"
  "dict_get (adapter_entry ip port api_key_var sub_tier_var) ''port'' d = port"
  by (simp_all add: adapter_entry_def dict_get_def)

text \<open>
  C1. For an adapter whose static discovery found neither address nor port, the keys
  \<open>ip\<close> and \<open>port\<close> are present with the value \<open>None\<close>, so \<open>get\<close> returns \<open>None\<close> and not the
  fallbacks of \<open>deploy_adapter\<close>: \<open>int(port)\<close> raises and the deployment fails with a
  FAILURE entry in the journal. With a port but no address the deployment succeeds, and
  the container is attached without any address instead of at \<open>192.168.1.113\<close>.
\<close>

theorem deploy_adapter_missing_discovery:
  "get_adapter_config fleet ''bare'' = Some (adapter_entry None None None None)
   \<and> dict_get (adapter_entry None None None None) ''ip'' (Some ''192.168.1.113'') = None
   \<and> dict_get (adapter_entry None None None None) ''port'' (Some ''1113'') = None
   \<and> fst (deploy_adapter quiet_world fleet ''bare'' (Some ''1.0'') init_state) = Inr False
   \<and> map status (new_journal (deploy_adapter quiet_world fleet ''bare'' (Some ''1.0'')) init_state)
       = [''FAILURE'']
   \<and> filter is_creation (new_events (deploy_adapter quiet_world fleet ''bare'' (Some ''1.0'')) init_state)
       = []
   \<and> fst (deploy_adapter quiet_world fleet ''noip'' (Some ''1.0'') init_state) = Inr True
   \<and> filter is_connect (new_events (deploy_adapter quiet_world fleet ''noip'' (Some ''1.0'')) init_state)
       = [Event (NetworkConnect ''eas-net'' ''noip-redis'' None) True]"
  by code_simp

subsection \<open>A response without result\<close>

text \<open>
  C3. When the adapter answers with JSON that has no \<open>result\<close> field, \<open>test_adapter\<close>
  returns \<open>None\<close>, the value of its failures, and the journal records the test as a
  SUCCESS.
\<close>

theorem test_adapter_missing_result:
  "json_loads no_result_world ''ok'' = Inr (JObj [(''error'', JStr ''x'')])
   \<and> fst (test_adapter no_result_world fleet ''coingecko-redis'' ''ETH'' ''USD'' init_state)
       = Inr JNull
   \<and> new_journal (test_adapter no_result_world fleet ''coingecko-redis'' ''ETH'' ''USD'') init_state
       = [LogTest ''coingecko-redis'' ''ETH'' ''USD'' True JNull]
   \<and> map status (new_journal (test_adapter no_result_world fleet ''coingecko-redis'' ''ETH'' ''USD'')
         init_state) = [''SUCCESS'']"
  by code_simp

subsection \<open>Upgrading an adapter that is not deployed\<close>

lemma upgrade_adapter_missing:
  assumes "containers_of w (trace s) (ContainersList True (a @ ''-redis'')) = Inr []"
  shows "upgrade_adapter w self a tag s =
     (Inr False, s\<lparr>trace := trace s @ [Event (ContainersList True (a @ ''-redis'')) True],
                   logs := logs s @ [(ERROR, ''Container '' @ a @ ''-redis does not exist'')]\<rparr>)"
  using assms by (simp add: upgrade_adapter_def prog_defs containers_list_def)

text \<open>
  C8. When the lookup of \<open>{adapter}-redis\<close> among all containers finds none,
  \<open>upgrade_adapter\<close> fails: it returns \<open>False\<close> after logging that the container does not
  exist, makes no further call and appends nothing to the journal, so no SUCCESS entry.
\<close>

theorem upgrade_adapter_not_found:
  assumes "containers_of w (trace s) (ContainersList True (a @ ''-redis'')) = Inr []"
  shows "fst (upgrade_adapter w self a tag s) = Inr False
       \<and> new_journal (upgrade_adapter w self a tag) s = []
       \<and> new_logs (upgrade_adapter w self a tag) s
           = [(ERROR, ''Container '' @ a @ ''-redis does not exist'')]
       \<and> new_events (upgrade_adapter w self a tag) s
           = [Event (ContainersList True (a @ ''-redis'')) True]"
  unfolding new_journal_def new_logs_def new_events_def
  by (simp only: upgrade_adapter_missing [OF assms]) simp

lemma quiet_world_containers: "containers_of quiet_world tr c = Inr []"
  by (simp add: quiet_world_def)

theorem upgrade_adapter_not_found_witness:
  "containers_of quiet_world (trace init_state) (ContainersList True (''coingecko'' @ ''-redis'')) = Inr []
   \<and> fst (upgrade_adapter quiet_world fleet ''coingecko'' None init_state) = Inr False
   \<and> new_journal (upgrade_adapter quiet_world fleet ''coingecko'' None) init_state = []"
  using upgrade_adapter_not_found
          [where w = quiet_world and s = init_state and a = "''coingecko''" and self = fleet
             and tag = None, OF quiet_world_containers]
  by (simp only: quiet_world_containers simp_thms)

subsection \<open>The probe\<close>

lemma container_address_host:
  "fst (container_address w c s) =
     Inr (case container_of w (trace s) (ContainersGet c) of
            Inl e \<Rightarrow> c
          | Inr ctr \<Rightarrow> (case map_of (ctr_networks ctr) ''eas-net'' of None \<Rightarrow> c | Some ip \<Rightarrow> ip))"
  by (simp add: container_address_def containers_get_def eas_net_address_def prog_defs
        split: sum.splits option.splits)

lemma url_authority_plain:
  assumes "plain_host h"
  shows "url_authority (''http://'' @ h @ '':1113'') = h @ '':1113''"
proof -
  from assms have "\<forall>c\<in>set (h @ '':1113''). c \<notin> set ''/?#''"
    unfolding plain_host_def list_all_iff by auto
  then have "takeWhile (\<lambda>c. c \<notin> set ''/?#'') (h @ '':1113'') = h @ '':1113''"
    by (simp only: takeWhile_eq_all_conv)
  then show ?thesis
    unfolding url_authority_def by simp
qed

lemma url_of_plain_host:
  assumes "plain_host h"
  shows "url_host (''http://'' @ h @ '':1113'') = h"
    and "url_port (''http://'' @ h @ '':1113'') = ''1113''"
  unfolding url_host_def url_port_def url_authority_plain [OF assms] by simp_all

text \<open>
  C10. \<open>test_adapter\<close> makes two external calls, the lookup of the container and one
  \<open>curl\<close> command: a POST of the request body with a connect timeout of 5 to the URL
  \<open>http://HOST:1113\<close>, where \<open>HOST\<close> is the address of the container on \<open>eas-net\<close>, or the
  identifier given when the container is unknown or not attached. The configuration,
  and with it the port an adapter is deployed on, has no influence on the run. When
  \<open>HOST\<close> holds no delimiter of a URL, the URL names port 1113 of \<open>HOST\<close>.
\<close>

theorem test_adapter_probes_port_1113:
  "(let host = (case container_of w (trace s) (ContainersGet c) of
                  Inl e \<Rightarrow> c
                | Inr ctr \<Rightarrow>
                    (case map_of (ctr_networks ctr) ''eas-net'' of None \<Rightarrow> c | Some ip \<Rightarrow> ip));
        url = ''http://'' @ host @ '':1113''
    in map call_of (new_events (test_adapter w self c f t) s)
         = [ContainersGet c,
            SubprocessRun
              [''curl'', ''-v'', ''--connect-timeout'', ''5'',
               ''--header'', ''Content-Type: application/json'',
               ''--request'', ''POST'',
               ''--data'',
               ''{'' @ [CHR 0x22] @ ''data'' @ [CHR 0x22] @ '':{'' @ [CHR 0x22] @ ''from''
                 @ [CHR 0x22] @ '':'' @ [CHR 0x22] @ f @ [CHR 0x22] @ '', '' @ [CHR 0x22]
                 @ ''to'' @ [CHR 0x22] @ '':'' @ [CHR 0x22] @ t @ [CHR 0x22] @ ''}}'',
               url]]
       \<and> test_adapter w self' c f t s = test_adapter w self c f t s
       \<and> (plain_host host \<longrightarrow> url_host url = host \<and> url_port url = ''1113''))"
proof -
  let ?host = "case container_of w (trace s) (ContainersGet c) of
                  Inl e \<Rightarrow> c
                | Inr ctr \<Rightarrow>
                    (case map_of (ctr_networks ctr) ''eas-net'' of None \<Rightarrow> c | Some ip \<Rightarrow> ip)"
  have h: "projr (fst (container_address w c s)) = ?host"
    by (simp add: container_address_host)
  have calls: "map call_of (new_events (test_adapter w self c f t) s)
         = [ContainersGet c,
            SubprocessRun
              [''curl'', ''-v'', ''--connect-timeout'', ''5'',
               ''--header'', ''Content-Type: application/json'',
               ''--request'', ''POST'',
               ''--data'',
               ''{'' @ [CHR 0x22] @ ''data'' @ [CHR 0x22] @ '':{'' @ [CHR 0x22] @ ''from''
                 @ [CHR 0x22] @ '':'' @ [CHR 0x22] @ f @ [CHR 0x22] @ '', '' @ [CHR 0x22]
                 @ ''to'' @ [CHR 0x22] @ '':'' @ [CHR 0x22] @ t @ [CHR 0x22] @ ''}}'',
               ''http://'' @ ?host @ '':1113'']]"
    using post_obs [OF test_adapter_summary [of w self c f t s]]
    by (simp add: h curl_cmd_def dquote_def)
  have config: "test_adapter w self' c f t s = test_adapter w self c f t s"
    by (simp add: test_adapter_def)
  have port: "plain_host ?host \<longrightarrow>
      url_host (''http://'' @ ?host @ '':1113'') = ?host
      \<and> url_port (''http://'' @ ?host @ '':1113'') = ''1113''"
    by (intro impI conjI) (erule url_of_plain_host)+
  show ?thesis
    unfolding Let_def by (intro conjI calls config port)
qed

lemma quiet_world_lookup:
  "container_of quiet_world tr (ContainersGet c)
     = Inr \<lparr>ctr_name = c, ctr_networks = [(''eas-net'', ''192.168.1.113'')]\<rparr>"
  by (simp add: quiet_world_def)

lemma plain_address: "plain_host ''192.168.1.113''"
  by code_simp

theorem test_adapter_probes_port_1113_witness:
  "plain_host ''192.168.1.113''
   \<and> map call_of (new_events (test_adapter quiet_world fleet ''coingecko-redis'' ''ETH'' ''USD'')
        init_state)
       = [ContainersGet ''coingecko-redis'',
          SubprocessRun
            [''curl'', ''-v'', ''--connect-timeout'', ''5'',
             ''--header'', ''Content-Type: application/json'',
             ''--request'', ''POST'',
             ''--data'',
             ''{'' @ [CHR 0x22] @ ''data'' @ [CHR 0x22] @ '':{'' @ [CHR 0x22] @ ''from''
               @ [CHR 0x22] @ '':'' @ [CHR 0x22] @ ''ETH'' @ [CHR 0x22] @ '', '' @ [CHR 0x22]
               @ ''to'' @ [CHR 0x22] @ '':'' @ [CHR 0x22] @ ''USD'' @ [CHR 0x22] @ ''}}'',
             ''http://192.168.1.113:1113'']]
   \<and> url_host ''http://192.168.1.113:1113'' = ''192.168.1.113''
   \<and> url_port ''http://192.168.1.113:1113'' = ''1113''"
  using test_adapter_probes_port_1113
          [where w = quiet_world and s = init_state and c = "''coingecko-redis''"
             and self = fleet and self' = fleet and f = "''ETH''" and t = "''USD''"]
        plain_address
  by (simp add: Let_def quiet_world_lookup)

theorem probe_port_counterexample:
  "map call_of (new_events (test_adapter unknown_container_world fleet ''10.0.0.5:8080/''
        ''ETH'' ''USD'') init_state)
     = [ContainersGet ''10.0.0.5:8080/'',
        SubprocessRun
          [''curl'', ''-v'', ''--connect-timeout'', ''5'',
           ''--header'', ''Content-Type: application/json'',
           ''--request'', ''POST'',
           ''--data'',
           ''{'' @ [CHR 0x22] @ ''data'' @ [CHR 0x22] @ '':{'' @ [CHR 0x22] @ ''from''
             @ [CHR 0x22] @ '':'' @ [CHR 0x22] @ ''ETH'' @ [CHR 0x22] @ '', '' @ [CHR 0x22]
             @ ''to'' @ [CHR 0x22] @ '':'' @ [CHR 0x22] @ ''USD'' @ [CHR 0x22] @ ''}}'',
           ''http://10.0.0.5:8080/:1113'']]
   \<and> url_host ''http://10.0.0.5:8080/:1113'' = ''10.0.0.5''
   \<and> url_port ''http://10.0.0.5:8080/:1113'' = ''8080''"
  by code_simp

subsection \<open>A static address that cannot be had\<close>










subsection \<open>Initialising an environment that is already there\<close>











subsection \<open>Journal entries per operation\<close>













end
